theory Spec2Isabelle
  imports Complex_Main "HOL-Library.Word" "HOL-Library.AList"
begin

section \<open>JavaScript data\<close>

text \<open>
  A JavaScript string is a sequence of UTF-16 code units. Literals of the source are
  written with \<open>str\<close>, which maps each ASCII character to its code unit.
\<close>

type_synonym js_string = "16 word list"

definition str :: "string \<Rightarrow> js_string" where
  "str s = map of_char s"

text \<open>
  Values as \<open>require\<close> of a JSON file and the scrapers produce them. An object is
  the list of its own properties in insertion order, each key once.
\<close>

datatype js_value =
    JUndefined
  | JNull
  | JBool bool
  | JNum real
  | JStr js_string
  | JArr "js_value list"
  | JObj "(js_string \<times> js_value) list"

type_synonym js_object = "(js_string \<times> js_value) list"

text \<open>
  What a \<open>throw\<close> or a \<open>reject\<close> carries: an \<open>Error\<close> with its message, a
  \<open>TypeError\<close> of the engine, the \<open>SyntaxError\<close> of a malformed JSON file, or the
  bare exit code that \<open>spawnOutput\<close> hands to \<open>reject\<close>.
\<close>

datatype js_thrown =
    Error js_string
  | TypeError
  | SyntaxError js_string
  | ExitCode int

text \<open>
  A promise is described by how it ends: it stays pending for ever, or it settles at
  some tick of a logical clock, fulfilled with a value or rejected with a reason.
\<close>

datatype 'a promise =
    Pending
  | Fulfilled nat 'a
  | Rejected nat js_thrown

subsection \<open>Built-in string and object operations\<close>

text \<open>\<open>String.prototype.toLowerCase\<close>, on the ASCII letters (all the scraper names use).\<close>

definition toLowerCase :: "js_string \<Rightarrow> js_string" where
  "toLowerCase s = map (\<lambda>c. if 0x41 \<le> c \<and> c \<le> 0x5A then c + 0x20 else c) s"

text \<open>\<open>String.prototype.slice\<close> with one non-negative argument.\<close>

definition slice :: "nat \<Rightarrow> js_string \<Rightarrow> js_string" where
  "slice n s = drop n s"

text \<open>The code units ECMAScript counts as WhiteSpace or LineTerminator.\<close>

definition is_whitespace :: "16 word \<Rightarrow> bool" where
  "is_whitespace c \<longleftrightarrow>
     c \<in> set [0x09, 0x0A, 0x0B, 0x0C, 0x0D, 0x20, 0xA0, 0x1680, 0x2028, 0x2029,
              0x202F, 0x205F, 0x3000, 0xFEFF]
     \<or> (0x2000 \<le> c \<and> c \<le> 0x200A)"

definition trim :: "js_string \<Rightarrow> js_string" where
  "trim s = rev (dropWhile is_whitespace (rev (dropWhile is_whitespace s)))"

text \<open>\<open>Array.prototype.join\<close> on an array of strings.\<close>

fun array_join :: "js_string list \<Rightarrow> js_string \<Rightarrow> js_string" where
  "array_join [] sep = []"
| "array_join [x] sep = x"
| "array_join (x # y # ys) sep = x @ sep @ array_join (y # ys) sep"

text \<open>
  \<open>Object.assign(target, ...sources)\<close>: the sources are copied in order, property by
  property; a key already present keeps its place and takes the new value.
\<close>

definition object_assign :: "js_object \<Rightarrow> js_object list \<Rightarrow> js_object" where
  "object_assign target sources =
     fold (\<lambda>src t. fold (\<lambda>(k, v). AList.update k v) src t) sources target"

section \<open>The environment\<close>

text \<open>
  A spawned child, as \<open>spawnOutput\<close> observes it: whether \<open>child.stdout\<close> is there, the
  \<open>data\<close> events of that stream and the \<open>close\<close> events of the child in arrival
  order (a \<open>close\<close> carries the exit code, \<open>null\<close> for a child ended by a signal),
  and the number of ticks from the spawn to the \<open>close\<close>.
\<close>

datatype child_event = Data js_string | Close "int option"

record child_process =
  stdout_piped :: bool
  events :: "child_event list"
  lifetime :: nat

text \<open>
  Everything outside the plugin: the working directory, \<open>node:path\<close>'s \<open>join\<close>,
  \<open>require\<close> and \<open>require.resolve\<close> (\<open>Inl\<close> is what they throw), and \<open>spawn\<close>.
  The first argument of \<open>spawn\<close> numbers the asynchronous invocation that makes the call
  (its position in the configured list), so that concurrent invocations issuing the same
  command may meet children that behave differently.
\<close>

record world =
  cwd :: js_string
  path_join :: "js_string \<Rightarrow> js_string \<Rightarrow> js_string"
  require :: "js_string \<Rightarrow> js_thrown + js_value"
  require_resolve :: "js_string \<Rightarrow> js_thrown + js_string"
  spawn :: "nat \<Rightarrow> js_string \<Rightarrow> js_string list \<Rightarrow> js_object \<Rightarrow> child_process"

text \<open>What the plugin does to the outside, each with the tick at which it happens.\<close>

datatype log_arg = Msg js_value | Caught js_thrown

datatype effect =
    Spawn nat js_string "js_string list" js_object
  | Warn nat log_arg
  | I18nDefine js_string
  | Command js_string

section \<open>spawnOutput\<close>

definition parsedArgs :: "js_string list option \<Rightarrow> js_string list" where
  "parsedArgs args = (case args of None \<Rightarrow> [] | Some a \<Rightarrow> a)"

definition parsedOptions :: "js_object option \<Rightarrow> js_object" where
  "parsedOptions options =
     object_assign []
       ([(str ''stdio'', JStr (str ''pipe'')), (str ''shell'', JBool True)]
        # (case options of None \<Rightarrow> [] | Some opts \<Rightarrow> [opts]))"

text \<open>
  The two listeners of \<open>spawnOutput\<close>: every \<open>data\<close> chunk is appended to \<open>stdout\<close>;
  the first \<open>close\<close> settles the promise, so later events change nothing. \<open>None\<close>: no
  \<open>close\<close> ever arrives.
\<close>

fun until_close :: "js_string \<Rightarrow> child_event list \<Rightarrow> (js_string \<times> int option) option" where
  "until_close stdout [] = None"
| "until_close stdout (Data x # es) = until_close (stdout @ x) es"
| "until_close stdout (Close x # es) = Some (stdout, x)"

definition spawnOutput ::
  "world \<Rightarrow> nat \<Rightarrow> nat \<Rightarrow> js_string \<Rightarrow> js_string list option \<Rightarrow> js_object option
     \<Rightarrow> js_string promise \<times> effect list" where
  "spawnOutput w caller now command args options =
     (let child = spawn w caller command (parsedArgs args) (parsedOptions options);
          fx = [Spawn now command (parsedArgs args) (parsedOptions options)]
      in if \<not> stdout_piped child
         then (Rejected now
                 (Error (str ''cannot get stdout of '' @ command @ str '' ''
                           @ array_join (parsedArgs args) (str '' ''))), fx)
         else (case until_close [] (events child) of
                 None \<Rightarrow> (Pending, fx)
               | Some (stdout, None) \<Rightarrow> (Fulfilled (now + lifetime child) stdout, fx)
               | Some (stdout, Some x) \<Rightarrow>
                   if x \<noteq> 0 then (Rejected (now + lifetime child) (ExitCode x), fx)
                   else (Fulfilled (now + lifetime child) stdout, fx)))"

section \<open>Promise.all\<close>

text \<open>
  \<open>Promise.all\<close> rejects as soon as one of its promises rejects, with that reason;
  otherwise it waits for all of them and is fulfilled with their values in the order of
  the array it was given, whatever the order in which they settled.
\<close>

fun earliest_rejection :: "'a promise list \<Rightarrow> (nat \<times> js_thrown) option" where
  "earliest_rejection [] = None"
| "earliest_rejection (Rejected t e # ps) =
     (case earliest_rejection ps of
        None \<Rightarrow> Some (t, e)
      | Some (t', e') \<Rightarrow> if t' < t then Some (t', e') else Some (t, e))"
| "earliest_rejection (p # ps) = earliest_rejection ps"

fun gather :: "nat \<Rightarrow> 'a promise list \<Rightarrow> (nat \<times> 'a list) option" where
  "gather now [] = Some (now, [])"
| "gather now (Fulfilled t v # ps) =
     (case gather now ps of None \<Rightarrow> None | Some (t', vs) \<Rightarrow> Some (max t t', v # vs))"
| "gather now (p # ps) = None"

definition Promise_all :: "nat \<Rightarrow> 'a promise list \<Rightarrow> 'a list promise" where
  "Promise_all now ps =
     (case earliest_rejection ps of
        Some (t, e) \<Rightarrow> Rejected t e
      | None \<Rightarrow> (case gather now ps of None \<Rightarrow> Pending | Some (t, vs) \<Rightarrow> Fulfilled t vs))"

section \<open>The scrapers\<close>

text \<open>
  \<open>localeDict\<close>: the template of the command and the unknown marker (the source's
  \<open>commands.about.template\<close> and \<open>commands.about.messsages.unknown\<close>), the
  characters outside ASCII by their code units.
\<close>

record locale_dict =
  template :: js_string
  unknown :: js_string

definition the_localeDict :: locale_dict where
  "the_localeDict =
     \<lparr>template =
        trim ([0x0A] @ str ''{project.name} - {project.description}'' @ [0x0A]
              @ [0x7248, 0x672C, 0xFF1A] @ str ''{project.version}'' @ [0x0A]
              @ [0x6846, 0x67B6, 0xFF1A] @ str ''Koishi v{koishiVersion}'' @ [0x0A]),
      unknown = [0xFF08, 0x672A, 0x77E5, 0xFF09]\<rparr>"

text \<open>
  The \<open>ScrapeContext\<close> a scraper reads. Its host handles \<open>ctx\<close> and \<open>l\<close> carry no
  data; what the logger is told is in the effect list.
\<close>

record ScrapeContext =
  localeDict :: locale_dict

text \<open>
  Besides its context a scraper is given the environment, the number of the invocation
  it runs in and the tick at which it starts; it returns its promise and its effects.
\<close>

type_synonym scraper = "ScrapeContext \<Rightarrow> world \<Rightarrow> nat \<Rightarrow> nat \<Rightarrow> js_value promise \<times> effect list"

definition scrapeGitVersion :: scraper where
  "scrapeGitVersion sctx w caller now =
     (let version = [] in
      case spawnOutput w caller now (str ''git'')
             (Some [str ''describe'', str ''--tags'', str ''--dirty'']) None of
        (Pending, fx1) \<Rightarrow> (Pending, fx1)
      | (Rejected t1 e, fx1) \<Rightarrow>
          (Fulfilled t1 (JStr (unknown (localeDict sctx))),
           fx1 @ [Warn t1 (Msg (JStr (str ''failed to get version:''))), Warn t1 (Caught e)])
      | (Fulfilled t1 described, fx1) \<Rightarrow>
          (let version = version @ trim described in
           case spawnOutput w caller t1 (str ''git'')
                  (Some [str ''rev-list'', str ''--count'', str ''HEAD'']) None of
             (Pending, fx2) \<Rightarrow> (Pending, fx1 @ fx2)
           | (Rejected t2 e, fx2) \<Rightarrow>
               (Fulfilled t2 (JStr (unknown (localeDict sctx))),
                fx1 @ fx2 @ [Warn t2 (Msg (JStr (str ''failed to get build number''))),
                             Warn t2 (Caught e)])
           | (Fulfilled t2 counted, fx2) \<Rightarrow>
               (Fulfilled t2 (JStr (version @ str '' (build '' @ trim counted @ str '')'')),
                fx1 @ fx2)))"

definition scrapeProject :: scraper where
  "scrapeProject sctx w caller now =
     (case require w (path_join w (cwd w) (str ''package.json'')) of
        Inr project \<Rightarrow> (Fulfilled now project, [])
      | Inl e \<Rightarrow>
          (Fulfilled now (JObj []),
           [Warn now (Msg (JStr (str ''failed to get project info''))), Warn now (Caught e)]))"

text \<open>
  The destructuring \<open>const { version: koishiVersion } = \<dots>\<close>: it throws on \<open>null\<close> and
  \<open>undefined\<close>, reads the property of an object, and finds no such property on any
  other value.
\<close>

fun version_of :: "js_value \<Rightarrow> js_thrown + js_value" where
  "version_of JUndefined = Inl TypeError"
| "version_of JNull = Inl TypeError"
| "version_of (JObj props) =
     Inr (case map_of props (str ''version'') of None \<Rightarrow> JUndefined | Some v \<Rightarrow> v)"
| "version_of v = Inr JUndefined"

definition scrapeKoishiVersion :: scraper where
  "scrapeKoishiVersion sctx w caller now =
     (let failed = (\<lambda>e.
            (Fulfilled now (JStr (unknown (localeDict sctx))),
             [Warn now (Msg (JStr (str ''failed to get koishi version''))),
              Warn now (Caught e)]))
      in case require_resolve w (str ''koishi/package.json'') of
           Inl e \<Rightarrow> failed e
         | Inr path \<Rightarrow>
             (case require w path of
                Inl e \<Rightarrow> failed e
              | Inr pkg \<Rightarrow>
                  (case version_of pkg of
                     Inl e \<Rightarrow> failed e
                   | Inr koishiVersion \<Rightarrow> (Fulfilled now koishiVersion, []))))"

definition scrapers :: "(js_string \<times> scraper) list" where
  "scrapers =
     [(str ''scrapeProject'', scrapeProject),
      (str ''scrapeGitVersion'', scrapeGitVersion),
      (str ''scrapeKoishiVersion'', scrapeKoishiVersion)]"

definition removeScrapePrefix :: "js_string \<Rightarrow> js_string" where
  "removeScrapePrefix x = slice 6 x"

definition scraperList :: "js_string list" where
  "scraperList = map removeScrapePrefix (map fst scrapers)"

section \<open>apply\<close>

text \<open>The key of one entry: \<open>x[0].toLowerCase() + x.slice(1)\<close>, for a non-empty \<open>x\<close>.\<close>

definition key :: "js_string \<Rightarrow> js_string" where
  "key x = toLowerCase (take 1 x) @ slice 1 x"

text \<open>
  The asynchronous callback that \<open>apply\<close> maps over \<open>config.scrapers\<close>, run for the
  name at position \<open>caller\<close>. On the empty string \<open>x[0]\<close> is \<open>undefined\<close> and the
  method call throws; a name outside the table makes the call of \<open>undefined\<close> throw.
\<close>

definition scrape_entry ::
  "ScrapeContext \<Rightarrow> world \<Rightarrow> nat \<Rightarrow> nat \<Rightarrow> js_string \<Rightarrow> js_object promise \<times> effect list" where
  "scrape_entry sctx w now caller x =
     (if x = [] then (Rejected now TypeError, [])
      else
        (case map_of scrapers (str ''scrape'' @ x) of
           None \<Rightarrow> (Rejected now TypeError, [])
         | Some scrape \<Rightarrow>
             (case scrape sctx w caller now of
                (Pending, fx) \<Rightarrow> (Pending, fx)
              | (Rejected t e, fx) \<Rightarrow> (Rejected t e, fx)
              | (Fulfilled t v, fx) \<Rightarrow> (Fulfilled t [(key x, v)], fx))))"

text \<open>
  The aggregation of \<open>apply\<close>: all callbacks are started at once, \<open>Promise.all\<close> waits
  for them, and \<open>Object.assign\<close> merges their one-entry objects into an empty one. The
  effects are listed invocation by invocation; their ticks give the order in time.
\<close>

definition aggregate ::
  "ScrapeContext \<Rightarrow> world \<Rightarrow> nat \<Rightarrow> js_string list \<Rightarrow> js_object promise \<times> effect list" where
  "aggregate sctx w now config =
     (let started = map (\<lambda>(caller, x). scrape_entry sctx w now caller x) (enumerate 0 config);
          fx = concat (map snd started)
      in case Promise_all now (map fst started) of
           Pending \<Rightarrow> (Pending, fx)
         | Rejected t e \<Rightarrow> (Rejected t e, fx)
         | Fulfilled t objs \<Rightarrow> (Fulfilled t (object_assign [] objs), fx))"

text \<open>
  The host, as far as \<open>apply\<close> touches it: the effects so far and the registered
  commands. The action of the \<open>about\<close> command is a closure over \<open>result\<close>; it is
  represented by the record it captured.
\<close>

datatype action = AboutAction js_object

record host =
  trace :: "effect list"
  commands :: "(js_string \<times> action) list"

definition apply_plugin :: "world \<Rightarrow> js_string list \<Rightarrow> host \<Rightarrow> unit promise \<times> host" where
  "apply_plugin w config h =
     (let h1 = h\<lparr>trace := trace h @ [I18nDefine (str ''zh-CN'')]\<rparr>;
          sctx = \<lparr>localeDict = the_localeDict\<rparr>
      in case aggregate sctx w 0 config of
           (Pending, fx) \<Rightarrow> (Pending, h1\<lparr>trace := trace h1 @ fx\<rparr>)
         | (Rejected t e, fx) \<Rightarrow> (Rejected t e, h1\<lparr>trace := trace h1 @ fx\<rparr>)
         | (Fulfilled t result, fx) \<Rightarrow>
             (Fulfilled t (),
              h1\<lparr>trace := trace h1 @ fx @ [Warn t (Msg (JObj result)), Command (str ''about'')],
                 commands := AList.update (str ''about'') (AboutAction result) (commands h1)\<rparr>))"

text \<open>
  A session of the host; \<open>session.text(path, params)\<close> renders the message at \<open>path\<close>
  with \<open>params\<close>. Running the action of the command: it calls \<open>session.text\<close> with the
  captured record and leaves the host as it is.
\<close>

record session =
  session_text :: "js_string \<Rightarrow> js_object \<Rightarrow> js_string"

fun run_action :: "action \<Rightarrow> session \<Rightarrow> host \<Rightarrow> js_string \<times> host" where
  "run_action (AboutAction result) s h =
     (session_text s (str ''commands.about.template'') result, h)"

text \<open>
  The array of promises that \<open>apply\<close> hands to \<open>Promise.all\<close>, the invocations
  numbered from \<open>n\<close>.
\<close>

definition started :: "ScrapeContext \<Rightarrow> world \<Rightarrow> nat \<Rightarrow> nat \<Rightarrow> js_string list \<Rightarrow> js_object promise list" where
  "started sctx w now n xs =
     map (\<lambda>(caller, x). fst (scrape_entry sctx w now caller x)) (enumerate n xs)"

text \<open>A child closes when a \<open>close\<close> event is among its events.\<close>

definition closes :: "child_process \<Rightarrow> bool" where
  "closes child \<longleftrightarrow> until_close [] (events child) \<noteq> None"

section \<open>Example environments\<close>

text \<open>
  A repository tagged \<open>v1.2.0\<close> with one commit, a project descriptor with a name and a
  description, and an installed host framework.
\<close>

definition tagged_world :: world where
  "tagged_world =
     \<lparr>cwd = str ''/app'',
      path_join = (\<lambda>a b. a @ str ''/'' @ b),
      require = (\<lambda>p.
        if p = str ''/app/package.json''
        then Inr (JObj [(str ''name'', JStr (str ''about'')),
                        (str ''description'', JStr (str ''demo''))])
        else if p = str ''/app/node_modules/koishi/package.json''
        then Inr (JObj [(str ''name'', JStr (str ''koishi'')),
                        (str ''version'', JStr (str ''4.17.0''))])
        else Inl (Error (str ''Cannot find module''))),
      require_resolve = (\<lambda>p. Inr (str ''/app/node_modules/'' @ p)),
      spawn = (\<lambda>caller command args options.
        if args = [str ''describe'', str ''--tags'', str ''--dirty'']
        then \<lparr>stdout_piped = True,
              events = [Data (str ''v1.2''), Data (str ''.0'' @ [0x0A]), Close (Some 0)],
              lifetime = 2\<rparr>
        else \<lparr>stdout_piped = True,
              events = [Data (str ''1'' @ [0x0A]), Close (Some 0)],
              lifetime = 1\<rparr>)\<rparr>"

text \<open>
  A directory with no descriptor files whose history cannot be counted:
  \<open>git describe\<close> answers, \<open>git rev-list\<close> exits with 128.
\<close>

definition broken_world :: world where
  "broken_world =
     \<lparr>cwd = str ''/tmp'',
      path_join = (\<lambda>a b. a @ str ''/'' @ b),
      require = (\<lambda>p. Inl (Error (str ''Cannot find module''))),
      require_resolve = (\<lambda>p. Inl (Error (str ''Cannot find module''))),
      spawn = (\<lambda>caller command args options.
        if args = [str ''describe'', str ''--tags'', str ''--dirty'']
        then \<lparr>stdout_piped = True,
              events = [Data (str ''v1.2.0'' @ [0x0A]), Close (Some 0)],
              lifetime = 2\<rparr>
        else \<lparr>stdout_piped = True, events = [Close (Some 128)], lifetime = 1\<rparr>)\<rparr>"

text \<open>Every child is ended by a signal after it has written part of its output.\<close>

definition killed_world :: world where
  "killed_world =
     broken_world\<lparr>spawn := (\<lambda>caller command args options.
        \<lparr>stdout_piped = True, events = [Data (str ''v1.''), Close None], lifetime = 3\<rparr>)\<rparr>"

text \<open>
  \<open>git describe\<close> is ended by a signal after it has written part of the tag; the
  count of the history then succeeds.
\<close>

definition interrupted_world :: world where
  "interrupted_world =
     broken_world\<lparr>spawn := (\<lambda>caller command args options.
        if args = [str ''describe'', str ''--tags'', str ''--dirty'']
        then \<lparr>stdout_piped = True, events = [Data (str ''v1.''), Close None], lifetime = 3\<rparr>
        else \<lparr>stdout_piped = True, events = [Data (str ''7'' @ [0x0A]), Close (Some 0)],
              lifetime = 1\<rparr>)\<rparr>"

text \<open>No child has a standard output stream, and each closes with code 0.\<close>

definition unpiped_world :: world where
  "unpiped_world =
     broken_world\<lparr>spawn := (\<lambda>caller command args options.
        \<lparr>stdout_piped = False, events = [Close (Some 0)], lifetime = 1\<rparr>)\<rparr>"

text \<open>
  Two invocations race while a commit lands: the children of invocation 0 each take five
  ticks, those of every other invocation one tick, so invocation 0 counts the history
  later and finds 8 commits where the others found 7.
\<close>

definition race_world :: world where
  "race_world =
     broken_world\<lparr>spawn := (\<lambda>caller command args options.
        \<lparr>stdout_piped = True,
         events =
           [Data (if args = [str ''describe'', str ''--tags'', str ''--dirty''] then str ''v1''
                  else if caller = 0 then str ''8'' else str ''7''),
            Close (Some 0)],
         lifetime = (if caller = 0 then 5 else 1)\<rparr>)\<rparr>"

text \<open>A session of the host that renders every message as its path, and a fresh host.\<close>

definition plain_session :: session where
  "plain_session = \<lparr>session_text = (\<lambda>path params. path)\<rparr>"

definition empty_host :: host where
  "empty_host = \<lparr>trace = [], commands = []\<rparr>"

section \<open>Properties of spawnOutput\<close>

lemma until_close_data:
  "until_close acc (map Data chunks @ Close x # rest) = Some (acc @ concat chunks, x)"
  by (induction chunks arbitrary: acc) simp_all

lemma until_close_shape:
  "until_close acc es = Some (out, x) \<Longrightarrow>
   \<exists>chunks rest. es = map Data chunks @ Close x # rest \<and> out = acc @ concat chunks"
proof (induction acc es rule: until_close.induct)
  case (1 stdout)
  then show ?case by simp
next
  case (2 stdout y es)
  then obtain chunks rest where
    "es = map Data chunks @ Close x # rest" "out = (stdout @ y) @ concat chunks"
    by auto
  then have "Data y # es = map Data (y # chunks) @ Close x # rest
      \<and> out = stdout @ concat (y # chunks)"
    by simp
  then show ?case by blast
next
  case (3 stdout y es)
  then have "Close y # es = map Data [] @ Close x # es \<and> out = stdout @ concat []"
    by simp
  then show ?case by blast
qed

lemma until_close_iff:
  "until_close acc es = Some (out, x) \<longleftrightarrow>
   (\<exists>chunks rest. es = map Data chunks @ Close x # rest \<and> out = acc @ concat chunks)"
  using until_close_shape [of acc es out x] by (auto simp: until_close_data)

lemma spawnOutput_fulfilled_iff:
  "fst (spawnOutput w caller now command args options) = Fulfilled t out \<longleftrightarrow>
     (let child = spawn w caller command (parsedArgs args) (parsedOptions options)
      in stdout_piped child \<and> t = now + lifetime child \<and>
         (\<exists>x. until_close [] (events child) = Some (out, x) \<and> (x = None \<or> x = Some 0)))"
  by (auto simp: spawnOutput_def Let_def split: option.splits)

lemma spawnOutput_rejected_iff:
  "fst (spawnOutput w caller now command args options) = Rejected t e \<longleftrightarrow>
     (let child = spawn w caller command (parsedArgs args) (parsedOptions options)
      in if stdout_piped child
         then t = now + lifetime child \<and>
           (\<exists>out n. until_close [] (events child) = Some (out, Some n) \<and> n \<noteq> 0 \<and> e = ExitCode n)
         else t = now \<and>
           e = Error (str ''cannot get stdout of '' @ command @ str '' ''
                        @ array_join (parsedArgs args) (str '' '')))"
  by (auto simp: spawnOutput_def Let_def split: option.splits)

lemma spawnOutput_snd:
  "snd (spawnOutput w caller now command args options) =
     [Spawn now command (parsedArgs args) (parsedOptions options)]"
  by (auto simp: spawnOutput_def Let_def split: option.splits)

text \<open>
  Claim C3, as the code has it. \<open>spawnOutput\<close> resolves exactly when the standard
  output stream was obtained and the first \<open>close\<close> carries a falsy code, which is 0 or
  \<open>null\<close> (the code of a child ended by a signal); the value is the concatenation of
  all chunks that arrived before that \<open>close\<close>, in arrival order. It rejects with the
  bare exit code exactly when the stream was obtained and the first \<open>close\<close> carries a
  number other than 0. When \<open>child.stdout\<close> is missing it fails at once with the
  \<open>cannot get stdout of \<dots>\<close> error.
\<close>

theorem spawnOutput_settles:
  assumes "child = spawn w caller command (parsedArgs args) (parsedOptions options)"
  shows
    "(fst (spawnOutput w caller now command args options) = Fulfilled t out \<longleftrightarrow>
        stdout_piped child \<and> t = now + lifetime child \<and>
        (\<exists>chunks x rest. events child = map Data chunks @ Close x # rest
           \<and> (x = None \<or> x = Some 0) \<and> out = concat chunks))
     \<and> (fst (spawnOutput w caller now command args options) = Rejected t (ExitCode n) \<longleftrightarrow>
        stdout_piped child \<and> t = now + lifetime child \<and> n \<noteq> 0 \<and>
        (\<exists>chunks rest. events child = map Data chunks @ Close (Some n) # rest))
     \<and> (\<not> stdout_piped child \<longrightarrow>
        fst (spawnOutput w caller now command args options) =
          Rejected now (Error (str ''cannot get stdout of '' @ command @ str '' ''
                                 @ array_join (parsedArgs args) (str '' ''))))"
proof (intro conjI)
  show "fst (spawnOutput w caller now command args options) = Fulfilled t out \<longleftrightarrow>
        stdout_piped child \<and> t = now + lifetime child \<and>
        (\<exists>chunks x rest. events child = map Data chunks @ Close x # rest
           \<and> (x = None \<or> x = Some 0) \<and> out = concat chunks)"
    unfolding spawnOutput_fulfilled_iff Let_def assms [symmetric] until_close_iff
    by auto
  show "fst (spawnOutput w caller now command args options) = Rejected t (ExitCode n) \<longleftrightarrow>
        stdout_piped child \<and> t = now + lifetime child \<and> n \<noteq> 0 \<and>
        (\<exists>chunks rest. events child = map Data chunks @ Close (Some n) # rest)"
    unfolding spawnOutput_rejected_iff Let_def assms [symmetric] until_close_iff
    by auto
  show "\<not> stdout_piped child \<longrightarrow>
        fst (spawnOutput w caller now command args options) =
          Rejected now (Error (str ''cannot get stdout of '' @ command @ str '' ''
                                 @ array_join (parsedArgs args) (str '' '')))"
    unfolding spawnOutput_rejected_iff Let_def assms [symmetric] by simp
qed

text \<open>The equations that evaluate \<open>spawnOutput\<close> on a concrete environment.\<close>

lemmas eval_spawn = spawnOutput_def parsedArgs_def parsedOptions_def object_assign_def Let_def

theorem spawnOutput_settles_witness:
  "stdout_piped (spawn tagged_world 0 (str ''git'') (parsedArgs (Some [str ''rev-list'', str ''--count'', str ''HEAD''])) (parsedOptions None))
   \<and> (\<exists>chunks x rest.
        events (spawn tagged_world 0 (str ''git'') (parsedArgs (Some [str ''rev-list'', str ''--count'', str ''HEAD''])) (parsedOptions None))
          = map Data chunks @ Close x # rest
        \<and> (x = None \<or> x = Some 0) \<and> str ''1'' @ [0x0A] = concat chunks)
   \<and> fst (spawnOutput unpiped_world 0 4 (str ''git'') (Some [str ''rev-list'', str ''--count'', str ''HEAD'']) None)
        = Rejected 4 (Error (str ''cannot get stdout of git rev-list --count HEAD''))"
proof -
  have "fst (spawnOutput tagged_world 0 2 (str ''git'')
          (Some [str ''rev-list'', str ''--count'', str ''HEAD'']) None)
        = Fulfilled 3 (str ''1'' @ [0x0A])"
    by (simp add: eval_spawn tagged_world_def str_def)
  moreover have "\<not> stdout_piped (spawn unpiped_world 0 (str ''git'')
      (parsedArgs (Some [str ''rev-list'', str ''--count'', str ''HEAD''])) (parsedOptions None))"
    by (simp add: unpiped_world_def)
  ultimately show ?thesis
    using spawnOutput_settles [OF refl, where w = tagged_world and caller = 0 and now = 2
        and command = "str ''git''" and options = None and t = 3
        and args = "Some [str ''rev-list'', str ''--count'', str ''HEAD'']"
        and out = "str ''1'' @ [0x0A]"]
      spawnOutput_settles [OF refl, where w = unpiped_world and caller = 0 and now = 4
        and command = "str ''git''" and options = None
        and args = "Some [str ''rev-list'', str ''--count'', str ''HEAD'']"]
    by (simp add: parsedArgs_def str_def)
qed

text \<open>
  Against claim C3 as written (resolution exactly on a zero/success close): a child that
  is ended by a signal after writing \<open>v1.\<close> closes with code \<open>null\<close>, not with 0, and
  \<open>spawnOutput\<close> resolves with the partial output.
\<close>

theorem spawnOutput_signal_counterexample:
  "events (spawn killed_world 0 (str ''git'') (parsedArgs None) (parsedOptions None))
     = [Data (str ''v1.''), Close None]
   \<and> fst (spawnOutput killed_world 0 0 (str ''git'') None None) = Fulfilled 3 (str ''v1.'')"
  by (simp add: eval_spawn killed_world_def)

lemma until_close_ex_iff:
  "(\<exists>out. until_close [] es = Some (out, x)) \<longleftrightarrow>
   (\<exists>chunks rest. es = map Data chunks @ Close x # rest)"
  by (simp add: until_close_iff)

lemma spawnOutput_rejected_ex:
  "(\<exists>t e. fst (spawnOutput w caller now command args options) = Rejected t e) \<longleftrightarrow>
     (let child = spawn w caller command (parsedArgs args) (parsedOptions options)
      in \<not> stdout_piped child
         \<or> (\<exists>n. n \<noteq> 0 \<and> (\<exists>out. until_close [] (events child) = Some (out, Some n))))"
  by (auto simp: spawnOutput_def Let_def split: option.splits)

lemma spawnOutput_rejects:
  assumes "child = spawn w caller command (parsedArgs args) (parsedOptions options)"
  shows "(\<exists>t e. fst (spawnOutput w caller now command args options) = Rejected t e) \<longleftrightarrow>
        \<not> stdout_piped child
        \<or> (\<exists>chunks x rest. events child = map Data chunks @ Close (Some x) # rest \<and> x \<noteq> 0)"
  unfolding spawnOutput_rejected_ex Let_def assms [symmetric] until_close_ex_iff
  by blast

lemma spawnOutput_resolves:
  assumes "child = spawn w caller command (parsedArgs args) (parsedOptions options)"
    and "stdout_piped child"
    and "events child = map Data chunks @ Close x # rest"
    and "x = None \<or> x = Some 0"
  shows "fst (spawnOutput w caller now command args options)
           = Fulfilled (now + lifetime child) (concat chunks)"
proof -
  have "until_close [] (events child) = Some (concat chunks, x)"
    by (simp add: assms(3) until_close_data)
  with assms(2,4) show ?thesis
    unfolding spawnOutput_fulfilled_iff Let_def assms(1) [symmetric] by auto
qed

text \<open>
  Claim C10, as the code has it. When \<open>child.stdout\<close> is missing, \<open>spawnOutput\<close>
  rejects at once with the \<open>cannot get stdout of \<dots>\<close> error, whatever code the child
  closes with. Once the stream has been obtained it rejects only when the first
  \<open>close\<close> carries a truthy code (a number other than 0); for a \<open>close\<close> with code 0
  or \<open>null\<close>, the code of a child ended by a signal, it resolves with the output
  accumulated up to that point.
\<close>

theorem spawnOutput_rejection_causes:
  assumes "child = spawn w caller command (parsedArgs args) (parsedOptions options)"
  shows
    "((\<exists>t e. fst (spawnOutput w caller now command args options) = Rejected t e) \<longleftrightarrow>
        \<not> stdout_piped child
        \<or> (\<exists>chunks x rest. events child = map Data chunks @ Close (Some x) # rest \<and> x \<noteq> 0))
     \<and> (stdout_piped child \<longrightarrow>
        (\<forall>chunks x rest.
           events child = map Data chunks @ Close x # rest \<and> (x = None \<or> x = Some 0) \<longrightarrow>
           fst (spawnOutput w caller now command args options)
             = Fulfilled (now + lifetime child) (concat chunks)))
     \<and> (\<not> stdout_piped child \<longrightarrow>
        fst (spawnOutput w caller now command args options) =
          Rejected now (Error (str ''cannot get stdout of '' @ command @ str '' ''
                                 @ array_join (parsedArgs args) (str '' ''))))"
proof (intro conjI)
  show "(\<exists>t e. fst (spawnOutput w caller now command args options) = Rejected t e) \<longleftrightarrow>
        \<not> stdout_piped child
        \<or> (\<exists>chunks x rest. events child = map Data chunks @ Close (Some x) # rest \<and> x \<noteq> 0)"
    using assms by (rule spawnOutput_rejects)
next
  show "stdout_piped child \<longrightarrow>
        (\<forall>chunks x rest.
           events child = map Data chunks @ Close x # rest \<and> (x = None \<or> x = Some 0) \<longrightarrow>
           fst (spawnOutput w caller now command args options)
             = Fulfilled (now + lifetime child) (concat chunks))"
  proof (intro allI impI)
    fix chunks x rest
    assume piped: "stdout_piped child"
      and closed: "events child = map Data chunks @ Close x # rest \<and> (x = None \<or> x = Some 0)"
    from closed have "events child = map Data chunks @ Close x # rest" "x = None \<or> x = Some 0"
      by blast+
    with assms piped show "fst (spawnOutput w caller now command args options)
        = Fulfilled (now + lifetime child) (concat chunks)"
      by (rule spawnOutput_resolves)
  qed
next
  show "\<not> stdout_piped child \<longrightarrow>
        fst (spawnOutput w caller now command args options) =
          Rejected now (Error (str ''cannot get stdout of '' @ command @ str '' ''
                                 @ array_join (parsedArgs args) (str '' '')))"
    unfolding spawnOutput_rejected_iff Let_def assms [symmetric] by simp
qed

theorem spawnOutput_rejection_causes_witness:
  "stdout_piped (spawn killed_world 1 (str ''git'') (parsedArgs None) (parsedOptions None))
   \<and> fst (spawnOutput killed_world 1 7 (str ''git'') None None) = Fulfilled 10 (str ''v1.'')
   \<and> \<not> (\<exists>t e. fst (spawnOutput killed_world 1 7 (str ''git'') None None) = Rejected t e)
   \<and> \<not> stdout_piped (spawn unpiped_world 1 (str ''git'') (parsedArgs None) (parsedOptions None))
   \<and> (\<exists>t e. fst (spawnOutput unpiped_world 1 7 (str ''git'') None None) = Rejected t e)"
proof -
  let ?child = "spawn killed_world 1 (str ''git'') (parsedArgs None) (parsedOptions None)"
  let ?bare = "spawn unpiped_world 1 (str ''git'') (parsedArgs None) (parsedOptions None)"
  have piped: "stdout_piped ?child"
    by (simp add: killed_world_def)
  have ev: "events ?child = map Data [str ''v1.''] @ Close None # []" "lifetime ?child = 3"
    by (simp_all add: killed_world_def)
  have bare: "\<not> stdout_piped ?bare"
    by (simp add: unpiped_world_def)
  note killed = spawnOutput_rejection_causes [OF refl, where w = killed_world and caller = 1
      and now = 7 and command = "str ''git''" and args = None and options = None]
  note unpiped = spawnOutput_rejection_causes [OF refl, where w = unpiped_world and caller = 1
      and now = 7 and command = "str ''git''" and args = None and options = None]
  from killed piped ev have "fst (spawnOutput killed_world 1 7 (str ''git'') None None)
      = Fulfilled (7 + 3) (concat [str ''v1.''])"
    by metis
  moreover from unpiped bare
  have "\<exists>t e. fst (spawnOutput unpiped_world 1 7 (str ''git'') None None) = Rejected t e"
    by blast
  ultimately show ?thesis using piped bare by simp
qed

text \<open>
  Against claim C10 as written (rejection only on a truthy close code, resolution on every
  close with code 0): a child without a standard output stream closes with code 0, and
  \<open>spawnOutput\<close> rejects with the stream error.
\<close>

theorem spawnOutput_unpiped_counterexample:
  "events (spawn unpiped_world 0 (str ''git'') (parsedArgs None) (parsedOptions None))
     = [Close (Some 0)]
   \<and> fst (spawnOutput unpiped_world 0 4 (str ''git'') None None)
     = Rejected 4 (Error (str ''cannot get stdout of git ''))"
  by (simp add: eval_spawn unpiped_world_def str_def)

section \<open>Properties of the scrapers\<close>

lemma scrapeGitVersion_fst:
  "fst (scrapeGitVersion sctx w caller now) =
     (case fst (spawnOutput w caller now (str ''git'')
                  (Some [str ''describe'', str ''--tags'', str ''--dirty'']) None) of
        Pending \<Rightarrow> Pending
      | Rejected t1 e \<Rightarrow> Fulfilled t1 (JStr (unknown (localeDict sctx)))
      | Fulfilled t1 described \<Rightarrow>
          (case fst (spawnOutput w caller t1 (str ''git'')
                       (Some [str ''rev-list'', str ''--count'', str ''HEAD'']) None) of
             Pending \<Rightarrow> Pending
           | Rejected t2 e \<Rightarrow> Fulfilled t2 (JStr (unknown (localeDict sctx)))
           | Fulfilled t2 counted \<Rightarrow>
               Fulfilled t2 (JStr (trim described @ str '' (build '' @ trim counted @ str '')''))))"
  by (simp add: scrapeGitVersion_def split: prod.splits promise.splits)

lemma scrapeProject_fst:
  "fst (scrapeProject sctx w caller now) =
     (case require w (path_join w (cwd w) (str ''package.json'')) of
        Inr project \<Rightarrow> Fulfilled now project
      | Inl e \<Rightarrow> Fulfilled now (JObj []))"
  by (simp add: scrapeProject_def split: sum.splits)

lemma scrapeKoishiVersion_fst:
  "fst (scrapeKoishiVersion sctx w caller now) =
     (case require_resolve w (str ''koishi/package.json'') of
        Inl e \<Rightarrow> Fulfilled now (JStr (unknown (localeDict sctx)))
      | Inr path \<Rightarrow>
          (case require w path of
             Inl e \<Rightarrow> Fulfilled now (JStr (unknown (localeDict sctx)))
           | Inr pkg \<Rightarrow>
               (case version_of pkg of
                  Inl e \<Rightarrow> Fulfilled now (JStr (unknown (localeDict sctx)))
                | Inr koishiVersion \<Rightarrow> Fulfilled now koishiVersion)))"
  by (simp add: scrapeKoishiVersion_def Let_def split: sum.splits)

text \<open>
  Claim C2, as the code has it. An invocation of git fails for \<open>scrapeGitVersion\<close> when
  its child has no standard output stream or closes with a number other than 0. When
  \<open>git describe --tags --dirty\<close> fails so, or it closes with code 0 or \<open>null\<close> and the
  following \<open>git rev-list --count HEAD\<close> fails so, \<open>scrapeGitVersion\<close> resolves to the
  unknown marker of its context and to nothing else: in the second case the description
  already obtained is not part of the value.
\<close>

theorem scrapeGitVersion_exit_failure_is_unknown:
  assumes "describing = spawn w caller (str ''git'')
             [str ''describe'', str ''--tags'', str ''--dirty''] (parsedOptions None)"
    and "counting = spawn w caller (str ''git'')
             [str ''rev-list'', str ''--count'', str ''HEAD''] (parsedOptions None)"
    and "(\<not> stdout_piped describing
          \<or> (\<exists>chunks n rest. events describing = map Data chunks @ Close (Some n) # rest
                \<and> n \<noteq> 0))
         \<or> (stdout_piped describing
             \<and> (\<exists>chunks x rest. events describing = map Data chunks @ Close x # rest
                   \<and> (x = None \<or> x = Some 0))
             \<and> (\<not> stdout_piped counting
                 \<or> (\<exists>chunks n rest. events counting = map Data chunks @ Close (Some n) # rest
                       \<and> n \<noteq> 0)))"
  shows "\<exists>t. fst (scrapeGitVersion sctx w caller now)
               = Fulfilled t (JStr (unknown (localeDict sctx)))"
proof -
  have d: "describing = spawn w caller (str ''git'')
      (parsedArgs (Some [str ''describe'', str ''--tags'', str ''--dirty''])) (parsedOptions None)"
    and c: "counting = spawn w caller (str ''git'')
      (parsedArgs (Some [str ''rev-list'', str ''--count'', str ''HEAD''])) (parsedOptions None)"
    using assms(1,2) by (simp_all add: parsedArgs_def)
  let ?fails = "\<lambda>child. \<not> stdout_piped child
      \<or> (\<exists>chunks n rest. events child = map Data chunks @ Close (Some n) # rest \<and> n \<noteq> 0)"
  have first_fails: ?thesis if "?fails describing"
  proof -
    from that have "\<exists>t e. fst (spawnOutput w caller now (str ''git'')
        (Some [str ''describe'', str ''--tags'', str ''--dirty'']) None) = Rejected t e"
      by (simp only: spawnOutput_rejects [OF d])
    then obtain t e where "fst (spawnOutput w caller now (str ''git'')
        (Some [str ''describe'', str ''--tags'', str ''--dirty'']) None) = Rejected t e"
      by blast
    then show ?thesis by (simp add: scrapeGitVersion_fst)
  qed
  have second_fails: ?thesis
    if piped: "stdout_piped describing"
      and closed: "\<exists>chunks x rest. events describing = map Data chunks @ Close x # rest
          \<and> (x = None \<or> x = Some 0)"
      and bad: "?fails counting"
  proof -
    from closed obtain chunks x rest
      where "events describing = map Data chunks @ Close x # rest" "x = None \<or> x = Some 0"
      by blast
    with piped have first: "fst (spawnOutput w caller now (str ''git'')
        (Some [str ''describe'', str ''--tags'', str ''--dirty'']) None)
          = Fulfilled (now + lifetime describing) (concat chunks)"
      by (intro spawnOutput_resolves [OF d])
    from bad have "\<exists>t e. fst (spawnOutput w caller (now + lifetime describing) (str ''git'')
        (Some [str ''rev-list'', str ''--count'', str ''HEAD'']) None) = Rejected t e"
      by (simp only: spawnOutput_rejects [OF c])
    then obtain t e where "fst (spawnOutput w caller (now + lifetime describing) (str ''git'')
        (Some [str ''rev-list'', str ''--count'', str ''HEAD'']) None) = Rejected t e"
      by blast
    with first show ?thesis by (simp add: scrapeGitVersion_fst)
  qed
  from assms(3) first_fails second_fails show ?thesis
    by blast
qed

text \<open>
  Against claim C2 as written (any failure of an invocation gives the unknown marker):
  \<open>git describe\<close> is ended by a signal after writing \<open>v1.\<close>, so it closes with code
  \<open>null\<close>; \<open>spawnOutput\<close> resolves, and the value is built from the partial output.
\<close>

theorem scrapeGitVersion_signal_counterexample:
  "events (spawn interrupted_world 0 (str ''git'')
             [str ''describe'', str ''--tags'', str ''--dirty''] (parsedOptions None))
     = [Data (str ''v1.''), Close None]
   \<and> fst (scrapeGitVersion \<lparr>localeDict = the_localeDict\<rparr> interrupted_world 0 0)
     = Fulfilled 4 (JStr (str ''v1. (build 7)''))
   \<and> JStr (str ''v1. (build 7)'') \<noteq> JStr (unknown the_localeDict)"
  by (simp add: eval_spawn scrapeGitVersion_def trim_def is_whitespace_def the_localeDict_def
      interrupted_world_def broken_world_def str_def)

theorem scrapeGitVersion_exit_failure_is_unknown_witness:
  "stdout_piped (spawn broken_world 0 (str ''git'')
      [str ''describe'', str ''--tags'', str ''--dirty''] (parsedOptions None))
   \<and> events (spawn broken_world 0 (str ''git'')
      [str ''describe'', str ''--tags'', str ''--dirty''] (parsedOptions None))
       = map Data [str ''v1.2.0'' @ [0x0A]] @ Close (Some 0) # []
   \<and> events (spawn broken_world 0 (str ''git'')
      [str ''rev-list'', str ''--count'', str ''HEAD''] (parsedOptions None))
       = map Data [] @ Close (Some 128) # []
   \<and> (\<exists>t. fst (scrapeGitVersion \<lparr>localeDict = the_localeDict\<rparr> broken_world 0 0)
            = Fulfilled t (JStr [0xFF08, 0x672A, 0x77E5, 0xFF09]))"
proof -
  let ?d = "spawn broken_world 0 (str ''git'')
      [str ''describe'', str ''--tags'', str ''--dirty''] (parsedOptions None)"
  let ?c = "spawn broken_world 0 (str ''git'')
      [str ''rev-list'', str ''--count'', str ''HEAD''] (parsedOptions None)"
  have piped: "stdout_piped ?d"
    by (simp add: broken_world_def)
  have first: "events ?d = map Data [str ''v1.2.0'' @ [0x0A]] @ Close (Some 0) # []"
    by (simp add: broken_world_def)
  have second: "events ?c = map Data [] @ Close (Some 128) # []"
    by (simp add: broken_world_def str_def)
  have "(\<not> stdout_piped ?d
          \<or> (\<exists>chunks n rest. events ?d = map Data chunks @ Close (Some n) # rest \<and> n \<noteq> 0))
         \<or> (stdout_piped ?d
             \<and> (\<exists>chunks x rest. events ?d = map Data chunks @ Close x # rest
                   \<and> (x = None \<or> x = Some 0))
             \<and> (\<not> stdout_piped ?c
                 \<or> (\<exists>chunks n rest. events ?c = map Data chunks @ Close (Some n) # rest
                       \<and> n \<noteq> 0)))"
  proof (intro disjI2 conjI)
    show "stdout_piped ?d" by (rule piped)
    show "\<exists>chunks x rest. events ?d = map Data chunks @ Close x # rest
        \<and> (x = None \<or> x = Some 0)"
      using first by (intro exI [of _ "[str ''v1.2.0'' @ [0x0A]]"] exI [of _ "Some 0"]
          exI [of _ "[]"]) simp
    show "\<exists>chunks n rest. events ?c = map Data chunks @ Close (Some n) # rest \<and> n \<noteq> 0"
      using second by (intro exI [of _ "[]"] exI [of _ 128]) simp
  qed
  from scrapeGitVersion_exit_failure_is_unknown [OF refl refl this,
      of "\<lparr>localeDict = the_localeDict\<rparr>" 0]
  have "\<exists>t. fst (scrapeGitVersion \<lparr>localeDict = the_localeDict\<rparr> broken_world 0 0)
            = Fulfilled t (JStr (unknown (localeDict \<lparr>localeDict = the_localeDict\<rparr>)))" .
  with piped first second show ?thesis by (simp add: the_localeDict_def)
qed

text \<open>
  Claim C4. When both invocations resolve, \<open>scrapeGitVersion\<close> resolves to the trimmed
  output of \<open>git describe --tags --dirty\<close>, a space, and \<open>(build N)\<close> with \<open>N\<close> the
  trimmed output of \<open>git rev-list --count HEAD\<close>.
\<close>

theorem scrapeGitVersion_success:
  assumes "fst (spawnOutput w caller now (str ''git'')
                  (Some [str ''describe'', str ''--tags'', str ''--dirty'']) None)
             = Fulfilled t1 described"
    and "fst (spawnOutput w caller t1 (str ''git'')
                  (Some [str ''rev-list'', str ''--count'', str ''HEAD'']) None)
             = Fulfilled t2 counted"
  shows "fst (scrapeGitVersion sctx w caller now)
           = Fulfilled t2 (JStr (trim described @ str '' (build '' @ trim counted @ str '')''))"
  using assms by (simp add: scrapeGitVersion_fst)

theorem scrapeGitVersion_success_witness:
  "fst (spawnOutput tagged_world 0 0 (str ''git'')
          (Some [str ''describe'', str ''--tags'', str ''--dirty'']) None)
     = Fulfilled 2 (str ''v1.2.0'' @ [0x0A])
   \<and> fst (spawnOutput tagged_world 0 2 (str ''git'')
          (Some [str ''rev-list'', str ''--count'', str ''HEAD'']) None)
     = Fulfilled 3 (str ''1'' @ [0x0A])
   \<and> fst (scrapeGitVersion \<lparr>localeDict = the_localeDict\<rparr> tagged_world 0 0)
     = Fulfilled 3 (JStr (str ''v1.2.0 (build 1)''))"
proof -
  have first: "fst (spawnOutput tagged_world 0 0 (str ''git'')
          (Some [str ''describe'', str ''--tags'', str ''--dirty'']) None)
     = Fulfilled 2 (str ''v1.2.0'' @ [0x0A])"
    by (simp add: eval_spawn tagged_world_def str_def)
  have second: "fst (spawnOutput tagged_world 0 2 (str ''git'')
          (Some [str ''rev-list'', str ''--count'', str ''HEAD'']) None)
     = Fulfilled 3 (str ''1'' @ [0x0A])"
    by (simp add: eval_spawn tagged_world_def str_def)
  have "trim (str ''v1.2.0'' @ [0x0A]) @ str '' (build '' @ trim (str ''1'' @ [0x0A]) @ str '')''
      = str ''v1.2.0 (build 1)''"
    by (simp add: trim_def is_whitespace_def str_def)
  with scrapeGitVersion_success [OF first second, of "\<lparr>localeDict = the_localeDict\<rparr>"]
    first second
  show ?thesis by simp
qed






section \<open>Properties of Promise.all and Object.assign\<close>

lemma earliest_rejection_mem:
  "earliest_rejection ps = Some (t, e) \<Longrightarrow> Rejected t e \<in> set ps"
  by (induction ps rule: earliest_rejection.induct)
     (auto split: option.splits if_splits)

lemma earliest_rejection_None:
  "(\<And>p. p \<in> set ps \<Longrightarrow> \<forall>t e. p \<noteq> Rejected t e) \<Longrightarrow> earliest_rejection ps = None"
  by (induction ps rule: earliest_rejection.induct) auto

lemma gather_values:
  "gather now ps = Some (t, vs) \<Longrightarrow> list_all2 (\<lambda>p v. \<exists>t'. p = Fulfilled t' v) ps vs"
  by (induction now ps arbitrary: t vs rule: gather.induct)
     (auto split: option.splits)

lemma gather_total:
  "(\<And>p. p \<in> set ps \<Longrightarrow> \<exists>t v. p = Fulfilled t v) \<Longrightarrow> \<exists>t vs. gather now ps = Some (t, vs)"
proof (induction ps)
  case Nil
  then show ?case by simp
next
  case (Cons p ps)
  from Cons.prems obtain t v where "p = Fulfilled t v"
    by (meson list.set_intros(1))
  moreover from Cons.IH Cons.prems obtain t' vs where "gather now ps = Some (t', vs)"
    by (meson list.set_intros(2))
  ultimately show ?case by simp
qed

lemma Promise_all_rejected:
  "Promise_all now ps = Rejected t e \<Longrightarrow> Rejected t e \<in> set ps"
  by (auto simp: Promise_all_def earliest_rejection_mem split: option.splits)

lemma Promise_all_fulfilled:
  "Promise_all now ps = Fulfilled t vs \<Longrightarrow> list_all2 (\<lambda>p v. \<exists>t'. p = Fulfilled t' v) ps vs"
  by (auto simp: Promise_all_def gather_values split: option.splits)

lemma Promise_all_total:
  assumes "\<And>p. p \<in> set ps \<Longrightarrow> \<exists>t v. p = Fulfilled t v"
  shows "\<exists>t vs. Promise_all now ps = Fulfilled t vs"
proof -
  have "earliest_rejection ps = None"
    using assms by (intro earliest_rejection_None) auto
  moreover obtain t vs where "gather now ps = Some (t, vs)"
    using gather_total [of ps now] assms by auto
  ultimately show ?thesis by (simp add: Promise_all_def)
qed

lemma object_assign_Nil: "object_assign acc [] = acc"
  by (simp add: object_assign_def)

lemma object_assign_single:
  "object_assign acc ([(k, v)] # objs) = object_assign (AList.update k v acc) objs"
  by (simp add: object_assign_def)

lemma object_assign_append:
  "object_assign acc (objs @ objs') = object_assign (object_assign acc objs) objs'"
  by (simp add: object_assign_def)

text \<open>Merging one-entry objects whose keys are \<open>f\<close> of a list of names.\<close>

lemma object_assign_keys:
  "list_all2 (\<lambda>x obj. \<exists>v. obj = [(f x, v)]) xs objs \<Longrightarrow>
   fst ` set (object_assign acc objs) = fst ` set acc \<union> f ` set xs"
proof (induction xs objs arbitrary: acc rule: list_all2_induct)
  case Nil
  then show ?case by (simp add: object_assign_Nil)
next
  case (Cons x xs obj objs)
  then obtain v where "obj = [(f x, v)]" by auto
  with Cons.IH [of "AList.update (f x) v acc"] show ?case
    by (simp add: object_assign_single dom_update)
qed

lemma object_assign_distinct:
  "list_all2 (\<lambda>x obj. \<exists>v. obj = [(f x, v)]) xs objs \<Longrightarrow> distinct (map fst acc) \<Longrightarrow>
   distinct (map fst (object_assign acc objs))"
proof (induction xs objs arbitrary: acc rule: list_all2_induct)
  case Nil
  then show ?case by (simp add: object_assign_Nil)
next
  case (Cons x xs obj objs)
  then obtain v where "obj = [(f x, v)]" by auto
  with Cons.IH [of "AList.update (f x) v acc"] Cons.prems show ?case
    by (simp add: object_assign_single distinct_update)
qed

lemma object_assign_other_key:
  "list_all2 (\<lambda>x obj. \<exists>v. obj = [(f x, v)]) xs objs \<Longrightarrow> k \<notin> f ` set xs \<Longrightarrow>
   map_of (object_assign acc objs) k = map_of acc k"
proof (induction xs objs arbitrary: acc rule: list_all2_induct)
  case Nil
  then show ?case by (simp add: object_assign_Nil)
next
  case (Cons x xs obj objs)
  then obtain v where "obj = [(f x, v)]" by auto
  with Cons.IH [of "AList.update (f x) v acc"] Cons.prems show ?case
    by (simp add: object_assign_single update_conv')
qed

section \<open>Properties of the aggregation\<close>

lemma scraperList_eq: "scraperList = [str ''Project'', str ''GitVersion'', str ''KoishiVersion'']"
  by (simp add: scraperList_def scrapers_def removeScrapePrefix_def slice_def str_def)

lemma key_scraperList:
  "map key scraperList = [str ''project'', str ''gitVersion'', str ''koishiVersion'']"
  by (simp add: scraperList_eq key_def toLowerCase_def slice_def str_def)

lemma key_inj: "inj_on key (set scraperList)"
  by (simp add: scraperList_eq key_def toLowerCase_def slice_def str_def)

lemma scrapers_lookup:
  "map_of scrapers (str ''scrape'' @ str ''Project'') = Some scrapeProject"
  "map_of scrapers (str ''scrape'' @ str ''GitVersion'') = Some scrapeGitVersion"
  "map_of scrapers (str ''scrape'' @ str ''KoishiVersion'') = Some scrapeKoishiVersion"
  by (simp_all add: scrapers_def str_def)

lemma names_nonempty:
  "str ''Project'' \<noteq> []" "str ''GitVersion'' \<noteq> []" "str ''KoishiVersion'' \<noteq> []"
  by (simp_all add: str_def)

lemma scrapeProject_settled: "\<exists>v. fst (scrapeProject sctx w caller now) = Fulfilled now v"
  by (simp add: scrapeProject_fst split: sum.splits)

lemma scrapeKoishiVersion_settled:
  "\<exists>v. fst (scrapeKoishiVersion sctx w caller now) = Fulfilled now v"
  by (simp add: scrapeKoishiVersion_fst split: sum.splits)

lemma scrapeGitVersion_not_rejected:
  "fst (scrapeGitVersion sctx w caller now) \<noteq> Rejected t e"
  by (simp add: scrapeGitVersion_fst split: promise.splits)

lemma spawnOutput_not_pending:
  assumes "closes (spawn w caller command (parsedArgs args) (parsedOptions options))"
  shows "fst (spawnOutput w caller now command args options) \<noteq> Pending"
  using assms by (auto simp: spawnOutput_def Let_def closes_def split: option.splits)

lemma scrapeGitVersion_settled:
  assumes "\<And>c command args options. closes (spawn w c command args options)"
  shows "\<exists>t v. fst (scrapeGitVersion sctx w caller now) = Fulfilled t v"
proof -
  have "fst (spawnOutput w caller t' command args options) \<noteq> Pending"
    for t' command args options
    using assms by (rule spawnOutput_not_pending)
  then show ?thesis
    by (auto simp: scrapeGitVersion_fst split: promise.splits)
qed

lemma scrape_entry_fst:
  "fst (scrape_entry sctx w now caller x) =
     (if x = [] then Rejected now TypeError
      else case map_of scrapers (str ''scrape'' @ x) of
             None \<Rightarrow> Rejected now TypeError
           | Some scrape \<Rightarrow>
               (case fst (scrape sctx w caller now) of
                  Pending \<Rightarrow> Pending
                | Rejected t e \<Rightarrow> Rejected t e
                | Fulfilled t v \<Rightarrow> Fulfilled t [(key x, v)]))"
  by (simp add: scrape_entry_def split: option.splits prod.splits promise.splits)

lemma scrape_entry_shape:
  "fst (scrape_entry sctx w now caller x) = Fulfilled t obj \<Longrightarrow> \<exists>v. obj = [(key x, v)]"
  by (auto simp: scrape_entry_fst split: if_splits option.splits promise.splits)

lemma scrape_entry_not_rejected:
  assumes "x \<in> set scraperList"
  shows "fst (scrape_entry sctx w now caller x) \<noteq> Rejected t e"
  using assms scrapeProject_settled [of sctx w caller now]
    scrapeKoishiVersion_settled [of sctx w caller now]
    scrapeGitVersion_not_rejected [of sctx w caller now]
  by (auto simp: scraperList_eq scrape_entry_fst scrapers_lookup names_nonempty
      split: promise.splits)

lemma scrape_entry_settled:
  assumes "x \<in> set scraperList"
    and "\<And>c command args options. closes (spawn w c command args options)"
  shows "\<exists>t obj. fst (scrape_entry sctx w now caller x) = Fulfilled t obj"
  using assms(1) scrapeProject_settled [of sctx w caller now]
    scrapeKoishiVersion_settled [of sctx w caller now]
    scrapeGitVersion_settled [of w sctx caller now, OF assms(2)]
  by (auto simp: scraperList_eq scrape_entry_fst scrapers_lookup names_nonempty
      split: promise.splits)

lemma started_alt:
  "map fst (map (\<lambda>(caller, x). scrape_entry sctx w now caller x) (enumerate n xs))
     = started sctx w now n xs"
  unfolding started_def by (induction xs arbitrary: n) simp_all

lemma aggregate_fst:
  "fst (aggregate sctx w now config) =
     (case Promise_all now (started sctx w now 0 config) of
        Pending \<Rightarrow> Pending
      | Rejected t e \<Rightarrow> Rejected t e
      | Fulfilled t objs \<Rightarrow> Fulfilled t (object_assign [] objs))"
  unfolding aggregate_def Let_def started_alt by (simp split: promise.splits)

lemma started_append:
  "started sctx w now n (xs @ ys) =
     started sctx w now n xs @ started sctx w now (n + length xs) ys"
  by (simp add: started_def enumerate_append_eq)

lemma started_Cons:
  "started sctx w now n (x # xs) =
     fst (scrape_entry sctx w now n x) # started sctx w now (Suc n) xs"
  by (simp add: started_def)

lemma started_mem:
  "p \<in> set (started sctx w now n xs) \<Longrightarrow>
   \<exists>caller x. x \<in> set xs \<and> p = fst (scrape_entry sctx w now caller x)"
proof (induction xs arbitrary: n)
  case Nil
  then show ?case by (simp add: started_def)
next
  case (Cons x xs)
  then show ?case
    by (fastforce simp: started_Cons)
qed

lemma started_values:
  "list_all2 (\<lambda>p v. \<exists>t'. p = Fulfilled t' v) (started sctx w now n xs) objs \<Longrightarrow>
   list_all2 (\<lambda>x obj. \<exists>v. obj = [(key x, v)]) xs objs"
proof (induction xs arbitrary: n objs)
  case Nil
  then show ?case by (simp add: started_def)
next
  case (Cons x xs)
  then show ?case
    by (auto simp: started_Cons list_all2_Cons1 dest: scrape_entry_shape)
qed

section \<open>The claims about the aggregation and the command\<close>

text \<open>
  Claim C1. For a configured sequence of names from the registered set, the record that
  the aggregation produces has exactly the keys of the names in the sequence, each key
  once, so one key per distinct name; the key of a name is the name with its first
  character in lower case (\<open>project\<close>, \<open>gitVersion\<close>, \<open>koishiVersion\<close>). The record is
  produced whenever every spawned child closes.
\<close>

theorem aggregate_keys:
  assumes "set config \<subseteq> set scraperList"
  shows
    "(\<forall>t result. fst (aggregate sctx w now config) = Fulfilled t result \<longrightarrow>
        fst ` set result = key ` set config \<and> distinct (map fst result)
        \<and> length result = card (set config))
     \<and> ((\<forall>c command args options. closes (spawn w c command args options)) \<longrightarrow>
        (\<exists>t result. fst (aggregate sctx w now config) = Fulfilled t result))
     \<and> map key scraperList = [str ''project'', str ''gitVersion'', str ''koishiVersion'']"
proof (intro conjI)
  show "\<forall>t result. fst (aggregate sctx w now config) = Fulfilled t result \<longrightarrow>
        fst ` set result = key ` set config \<and> distinct (map fst result)
        \<and> length result = card (set config)"
  proof (intro allI impI)
  fix t result
  assume "fst (aggregate sctx w now config) = Fulfilled t result"
  then obtain objs where all: "Promise_all now (started sctx w now 0 config) = Fulfilled t objs"
    and result: "result = object_assign [] objs"
    by (auto simp: aggregate_fst split: promise.splits)
  from all have entries: "list_all2 (\<lambda>x obj. \<exists>v. obj = [(key x, v)]) config objs"
    by (intro started_values Promise_all_fulfilled)
  from entries have keys: "fst ` set result = key ` set config"
    unfolding result by (simp add: object_assign_keys)
  from entries have dist: "distinct (map fst result)"
    unfolding result by (rule object_assign_distinct) simp
  have "inj_on key (set config)"
    using key_inj assms by (rule inj_on_subset)
  then have "card (key ` set config) = card (set config)"
    by (rule card_image)
  moreover have "length result = card (fst ` set result)"
    using dist by (metis distinct_card length_map set_map)
  ultimately have "length result = card (set config)"
    using keys by simp
  with keys dist
  show "fst ` set result = key ` set config \<and> distinct (map fst result)
        \<and> length result = card (set config)"
    by simp
  qed
next
  show "(\<forall>c command args options. closes (spawn w c command args options)) \<longrightarrow>
        (\<exists>t result. fst (aggregate sctx w now config) = Fulfilled t result)"
  proof
  assume "\<forall>c command args options. closes (spawn w c command args options)"
  then have "\<exists>t v. p = Fulfilled t v" if "p \<in> set (started sctx w now 0 config)" for p
    using that assms scrape_entry_settled [of _ w sctx now]
    by (fastforce dest!: started_mem)
  then obtain t objs where "Promise_all now (started sctx w now 0 config) = Fulfilled t objs"
    using Promise_all_total [of "started sctx w now 0 config" now] by blast
  then show "\<exists>t result. fst (aggregate sctx w now config) = Fulfilled t result"
    by (simp add: aggregate_fst)
  qed
next
  show "map key scraperList = [str ''project'', str ''gitVersion'', str ''koishiVersion'']"
    by (rule key_scraperList)
qed

text \<open>
  Claim C7, as the code has it. \<open>Promise.all\<close> hands the one-entry objects to
  \<open>Object.assign\<close> in the order of the configured sequence, so among duplicates of a
  name the value of its last occurrence in the sequence is the one the record holds, at
  whatever ticks the invocations complete.
\<close>

theorem aggregate_last_position_wins:
  assumes "set config \<subseteq> set scraperList"
    and "config = earlier @ x # later"
    and "x \<notin> set later"
    and "fst (aggregate sctx w now config) = Fulfilled t result"
  shows "\<exists>t' v. fst (scrape_entry sctx w now (length earlier) x) = Fulfilled t' [(key x, v)]
           \<and> map_of result (key x) = Some v"
proof -
  from assms(4) obtain objs
    where all: "Promise_all now (started sctx w now 0 config) = Fulfilled t objs"
      and result: "result = object_assign [] objs"
    by (auto simp: aggregate_fst split: promise.splits)
  have split: "started sctx w now 0 config =
      started sctx w now 0 earlier
      @ fst (scrape_entry sctx w now (length earlier) x)
      # started sctx w now (Suc (length earlier)) later"
    by (simp add: assms(2) started_append started_Cons)
  from Promise_all_fulfilled [OF all] obtain objs1 obj objs2 t'
    where objs: "objs = objs1 @ obj # objs2"
      and one: "fst (scrape_entry sctx w now (length earlier) x) = Fulfilled t' obj"
      and rest: "list_all2 (\<lambda>p v. \<exists>t'. p = Fulfilled t' v)
                   (started sctx w now (Suc (length earlier)) later) objs2"
    unfolding split by (auto simp: list_all2_append1 list_all2_Cons1)
  from one obtain v where obj: "obj = [(key x, v)]"
    by (auto dest: scrape_entry_shape)
  have "inj_on key (set config)"
    using key_inj assms(1) by (rule inj_on_subset)
  with assms(2,3) have fresh: "key x \<notin> key ` set later"
    by (auto simp: inj_on_def)
  have "map_of result (key x)
      = map_of (AList.update (key x) v (object_assign [] objs1)) (key x)"
    unfolding result objs obj object_assign_append object_assign_single
    using started_values [OF rest] fresh by (rule object_assign_other_key)
  then have "map_of result (key x) = Some v"
    by (simp add: update_conv')
  with one obj show ?thesis by blast
qed

text \<open>
  Claim C9. No scraper of the table ever rejects: each failure inside it ends in a
  fallback value. Hence neither the aggregation over a sequence of registered names nor
  \<open>apply\<close> as a whole rejects.
\<close>

theorem scrapers_never_reject:
  "(\<forall>name scrape. (name, scrape) \<in> set scrapers \<longrightarrow>
      fst (scrape sctx w caller now) \<noteq> Rejected t e)
   \<and> (set config \<subseteq> set scraperList \<longrightarrow>
      fst (aggregate sctx w now config) \<noteq> Rejected t e
      \<and> fst (apply_plugin w config h) \<noteq> Rejected t e)"
proof (intro conjI allI impI)
  fix name scrape
  assume "(name, scrape) \<in> set scrapers"
  then have "scrape = scrapeProject \<or> scrape = scrapeGitVersion \<or> scrape = scrapeKoishiVersion"
    by (auto simp: scrapers_def)
  then show "fst (scrape sctx w caller now) \<noteq> Rejected t e"
    using scrapeProject_settled [of sctx w caller now]
      scrapeKoishiVersion_settled [of sctx w caller now]
      scrapeGitVersion_not_rejected [of sctx w caller now]
    by auto
next
  assume valid: "set config \<subseteq> set scraperList"
  have none: "fst (aggregate sctx' w now' config) \<noteq> Rejected t e" for sctx' now'
  proof
    assume "fst (aggregate sctx' w now' config) = Rejected t e"
    then have "Promise_all now' (started sctx' w now' 0 config) = Rejected t e"
      by (auto simp: aggregate_fst split: promise.splits)
    then have "Rejected t e \<in> set (started sctx' w now' 0 config)"
      by (rule Promise_all_rejected)
    then obtain caller x where "x \<in> set config"
      "fst (scrape_entry sctx' w now' caller x) = Rejected t e"
      by (metis started_mem)
    with valid show False
      using scrape_entry_not_rejected by blast
  qed
  show "fst (aggregate sctx w now config) \<noteq> Rejected t e"
    by (rule none)
  show "fst (apply_plugin w config h) \<noteq> Rejected t e"
    using none [of "\<lparr>localeDict = the_localeDict\<rparr>" 0]
    by (auto simp: apply_plugin_def Let_def split: prod.splits promise.splits)
qed

text \<open>
  Claim C6. For the empty sequence the aggregation resolves at once to the empty record
  and has no effect at all, so nothing is spawned; \<open>apply\<close> then only defines the
  locale, logs the empty record and registers the command.
\<close>

theorem aggregate_empty:
  "aggregate sctx w now [] = (Fulfilled now [], [])
   \<and> apply_plugin w [] h =
       (Fulfilled 0 (),
        h\<lparr>trace := trace h @ [I18nDefine (str ''zh-CN''), Warn 0 (Msg (JObj [])),
                              Command (str ''about'')],
          commands := AList.update (str ''about'') (AboutAction []) (commands h)\<rparr>)"
  by (simp add: aggregate_def apply_plugin_def Promise_all_def object_assign_def)

text \<open>
  Claim C8. After \<open>apply\<close> has resolved, any two invocations of the registered
  \<open>about\<close> action render the record that the one aggregation at startup produced, under
  the same path; each leaves the host unchanged, so nothing is scraped again; and the
  two texts are equal whenever the two sessions render alike.
\<close>

theorem about_renders_snapshot:
  assumes "apply_plugin w config h = (Fulfilled t (), h')"
    and "map_of (commands h') (str ''about'') = Some action"
    and "run_action action s1 h' = (text1, h1)"
    and "run_action action s2 h1 = (text2, h2)"
  shows "\<exists>result. fst (aggregate \<lparr>localeDict = the_localeDict\<rparr> w 0 config) = Fulfilled t result
           \<and> text1 = session_text s1 (str ''commands.about.template'') result
           \<and> text2 = session_text s2 (str ''commands.about.template'') result
           \<and> h1 = h' \<and> h2 = h'
           \<and> (session_text s1 = session_text s2 \<longrightarrow> text1 = text2)"
proof -
  from assms(1) obtain result fx
    where agg: "aggregate \<lparr>localeDict = the_localeDict\<rparr> w 0 config = (Fulfilled t result, fx)"
      and h': "commands h' = AList.update (str ''about'') (AboutAction result) (commands h)"
    by (auto simp: apply_plugin_def Let_def split: prod.splits promise.splits)
  from h' assms(2) have "action = AboutAction result"
    by (simp add: update_conv')
  with assms(3,4) agg show ?thesis by auto
qed

text \<open>The equations that evaluate the scrapers and the aggregation on a concrete environment.\<close>

lemmas eval_scrape =
  eval_spawn scrapeGitVersion_def scrapeProject_def scrapeKoishiVersion_def scrape_entry_def
  aggregate_def Promise_all_def scrapers_def key_def toLowerCase_def slice_def trim_def
  is_whitespace_def the_localeDict_def str_def

text \<open>
  Against claim C7 as written (the winner is decided by completion order): with
  \<open>GitVersion\<close> configured twice, the first invocation completes at tick 10 with
  \<open>v1 (build 8)\<close> and the second at tick 2 with \<open>v1 (build 7)\<close>; the record
  holds the value of the second, which was computed first.
\<close>

theorem completion_order_counterexample:
  "fst (scrape_entry \<lparr>localeDict = the_localeDict\<rparr> race_world 0 0 (str ''GitVersion''))
     = Fulfilled 10 [(str ''gitVersion'', JStr (str ''v1 (build 8)''))]
   \<and> fst (scrape_entry \<lparr>localeDict = the_localeDict\<rparr> race_world 0 1 (str ''GitVersion''))
     = Fulfilled 2 [(str ''gitVersion'', JStr (str ''v1 (build 7)''))]
   \<and> fst (aggregate \<lparr>localeDict = the_localeDict\<rparr> race_world 0
            [str ''GitVersion'', str ''GitVersion''])
     = Fulfilled 10 [(str ''gitVersion'', JStr (str ''v1 (build 7)''))]"
  by (simp add: eval_scrape race_world_def broken_world_def)

theorem aggregate_last_position_wins_witness:
  "set [str ''GitVersion'', str ''GitVersion''] \<subseteq> set scraperList
   \<and> str ''GitVersion'' \<notin> set []
   \<and> fst (aggregate \<lparr>localeDict = the_localeDict\<rparr> race_world 0
            ([str ''GitVersion''] @ str ''GitVersion'' # []))
       = Fulfilled 10 [(str ''gitVersion'', JStr (str ''v1 (build 7)''))]
   \<and> (\<exists>t' v. fst (scrape_entry \<lparr>localeDict = the_localeDict\<rparr> race_world 0
                    (length [str ''GitVersion'']) (str ''GitVersion''))
                = Fulfilled t' [(key (str ''GitVersion''), v)]
            \<and> map_of [(str ''gitVersion'', JStr (str ''v1 (build 7)''))]
                  (key (str ''GitVersion'')) = Some v)"
proof -
  have valid: "set ([str ''GitVersion''] @ str ''GitVersion'' # []) \<subseteq> set scraperList"
    by (simp add: scraperList_eq)
  have last: "str ''GitVersion'' \<notin> set []"
    by simp
  have agg: "fst (aggregate \<lparr>localeDict = the_localeDict\<rparr> race_world 0
            ([str ''GitVersion''] @ str ''GitVersion'' # []))
       = Fulfilled 10 [(str ''gitVersion'', JStr (str ''v1 (build 7)''))]"
    by (simp add: eval_scrape race_world_def broken_world_def)
  from aggregate_last_position_wins [OF valid refl last agg] valid agg
  show ?thesis by simp
qed

theorem aggregate_keys_witness:
  "set [str ''Project'', str ''GitVersion'', str ''KoishiVersion'', str ''GitVersion'']
     \<subseteq> set scraperList
   \<and> (\<forall>c command args options. closes (spawn tagged_world c command args options))
   \<and> (\<exists>t result.
        fst (aggregate \<lparr>localeDict = the_localeDict\<rparr> tagged_world 0
               [str ''Project'', str ''GitVersion'', str ''KoishiVersion'', str ''GitVersion''])
          = Fulfilled t result
        \<and> fst ` set result = {str ''project'', str ''gitVersion'', str ''koishiVersion''}
        \<and> length result = 3)"
proof -
  let ?config = "[str ''Project'', str ''GitVersion'', str ''KoishiVersion'', str ''GitVersion'']"
  have valid: "set ?config \<subseteq> set scraperList"
    by (simp add: scraperList_eq)
  have closing: "\<forall>c command args options. closes (spawn tagged_world c command args options)"
    by (simp add: closes_def tagged_world_def)
  have keys: "key ` set ?config = {str ''project'', str ''gitVersion'', str ''koishiVersion''}"
    by (auto simp: key_def toLowerCase_def slice_def str_def)
  have "set ?config = set [str ''Project'', str ''GitVersion'', str ''KoishiVersion'']"
    by auto
  moreover have "distinct [str ''Project'', str ''GitVersion'', str ''KoishiVersion'']"
    by (simp add: str_def)
  ultimately have count: "card (set ?config) = 3"
    by (simp only: distinct_card) simp
  note keys_of = aggregate_keys [OF valid, of "\<lparr>localeDict = the_localeDict\<rparr>" tagged_world 0]
  from keys_of closing obtain t result
    where "fst (aggregate \<lparr>localeDict = the_localeDict\<rparr> tagged_world 0 ?config)
             = Fulfilled t result"
    by blast
  moreover from this keys_of
  have "fst ` set result = key ` set ?config \<and> length result = card (set ?config)"
    by blast
  ultimately show ?thesis
    using valid closing keys count by auto
qed

theorem scrapers_never_reject_witness:
  "(str ''scrapeGitVersion'', scrapeGitVersion) \<in> set scrapers
   \<and> fst (scrapeGitVersion \<lparr>localeDict = the_localeDict\<rparr> unpiped_world 1 0)
       \<noteq> Rejected 0 (Error (str ''cannot get stdout of git describe --tags --dirty''))
   \<and> set [str ''KoishiVersion'', str ''GitVersion'', str ''Project''] \<subseteq> set scraperList
   \<and> fst (aggregate \<lparr>localeDict = the_localeDict\<rparr> unpiped_world 0
            [str ''KoishiVersion'', str ''GitVersion'', str ''Project''])
       \<noteq> Rejected 0 (Error (str ''cannot get stdout of git describe --tags --dirty''))
   \<and> fst (apply_plugin unpiped_world
            [str ''KoishiVersion'', str ''GitVersion'', str ''Project''] empty_host)
       \<noteq> Rejected 0 (Error (str ''cannot get stdout of git describe --tags --dirty''))"
proof -
  have member: "(str ''scrapeGitVersion'', scrapeGitVersion) \<in> set scrapers"
    by (simp add: scrapers_def)
  have valid: "set [str ''KoishiVersion'', str ''GitVersion'', str ''Project''] \<subseteq> set scraperList"
    by (simp add: scraperList_eq)
  from scrapers_never_reject
    [of "\<lparr>localeDict = the_localeDict\<rparr>" unpiped_world 1 0 0
        "Error (str ''cannot get stdout of git describe --tags --dirty'')"
        "[str ''KoishiVersion'', str ''GitVersion'', str ''Project'']" empty_host]
    member valid
  show ?thesis by blast
qed

theorem about_renders_snapshot_witness:
  "\<exists>h' action text1 h1 text2 h2.
     apply_plugin tagged_world [str ''Project'', str ''KoishiVersion''] empty_host
       = (Fulfilled 0 (), h')
     \<and> map_of (commands h') (str ''about'') = Some action
     \<and> run_action action plain_session h' = (text1, h1)
     \<and> run_action action plain_session h1 = (text2, h2)
     \<and> text1 = str ''commands.about.template'' \<and> text2 = text1 \<and> h1 = h' \<and> h2 = h'
     \<and> trace h2 = [I18nDefine (str ''zh-CN''),
          Warn 0 (Msg (JObj [(str ''project'',
                               JObj [(str ''name'', JStr (str ''about'')),
                                     (str ''description'', JStr (str ''demo''))]),
                              (str ''koishiVersion'', JStr (str ''4.17.0''))])),
          Command (str ''about'')]"
proof -
  let ?config = "[str ''Project'', str ''KoishiVersion'']"
  let ?result = "[(str ''project'',
                     JObj [(str ''name'', JStr (str ''about'')),
                           (str ''description'', JStr (str ''demo''))]),
                  (str ''koishiVersion'', JStr (str ''4.17.0''))]"
  define h' where "h' = snd (apply_plugin tagged_world ?config empty_host)"
  have started: "apply_plugin tagged_world ?config empty_host = (Fulfilled 0 (), h')"
    and traced: "trace h' = [I18nDefine (str ''zh-CN''), Warn 0 (Msg (JObj ?result)),
          Command (str ''about'')]"
    and registered: "map_of (commands h') (str ''about'') = Some (AboutAction ?result)"
    unfolding h'_def
    by (simp_all add: apply_plugin_def eval_scrape tagged_world_def empty_host_def)
  obtain text1 h1 where first: "run_action (AboutAction ?result) plain_session h' = (text1, h1)"
    by force
  obtain text2 h2 where second: "run_action (AboutAction ?result) plain_session h1 = (text2, h2)"
    by force
  from about_renders_snapshot [OF started registered first second]
  have "text1 = str ''commands.about.template''" "text2 = text1" "h1 = h'" "h2 = h'"
    by (auto simp: plain_session_def)
  with started traced registered first second show ?thesis
    by blast
qed

end
